theory Spec2Isabelle
  imports Main
begin

section \<open>JavaScript values used by the calendar\<close>

text \<open>
  A JavaScript call either returns or throws; a rejected promise of an \<open>async\<close>
  function is a throw at the \<open>await\<close>.  The payload of a throw is the error's message.
\<close>

datatype 'a completion = Throw string | Normal 'a

text \<open>
  An optional string (\<open>string | undefined\<close>) in a condition: \<open>undefined\<close> and the empty
  string are falsy, every other string is truthy.
\<close>

definition truthy :: "string option \<Rightarrow> bool" where
  "truthy s = (case s of None \<Rightarrow> False | Some x \<Rightarrow> x \<noteq> [])"

text \<open>
  Numbers that come out of \<open>Date\<close> getters are integers or \<open>NaN\<close>; \<open>None\<close> is \<open>NaN\<close>.
  Arithmetic with \<open>NaN\<close> gives \<open>NaN\<close>, and every comparison with \<open>NaN\<close> is false
  (also \<open>NaN === NaN\<close>).
\<close>

type_synonym number = "int option"

definition js_add :: "number \<Rightarrow> int \<Rightarrow> number" where
  "js_add a k = map_option (\<lambda>n. n + k) a"



section \<open>The Date object (ECMA-262, Date objects)\<close>

text \<open>
  A \<open>Date\<close> holds a time value: milliseconds since 1970-01-01T00:00Z, or \<open>NaN\<close> for
  an invalid date.  The functions below are the abstract operations of the language
  standard, with its names.  In this section the host is at UTC, so \<open>LocalTZA\<close> is
  zero; the bucketing of posts and the month navigation are stated with these
  operations.  The section after this one gives the operations for any host zone, and
  the calendar grid, whose loop depends on the changes of the zone's offset, is stated
  with those.
\<close>

type_synonym Date = "int option"

definition msPerDay :: int where
  "msPerDay = 86400000"

definition LocalTZA :: int where
  "LocalTZA = 0"

definition LocalTime :: "int \<Rightarrow> int" where
  "LocalTime t = t + LocalTZA"

definition UTC :: "int \<Rightarrow> int" where
  "UTC t = t - LocalTZA"

definition Day :: "int \<Rightarrow> int" where
  "Day t = t div msPerDay"


definition DaysInYear :: "int \<Rightarrow> int" where
  "DaysInYear y =
     (if y mod 4 \<noteq> 0 then 365
      else if y mod 100 \<noteq> 0 then 366
      else if y mod 400 \<noteq> 0 then 365
      else 366)"

definition DayFromYear :: "int \<Rightarrow> int" where
  "DayFromYear y =
     365 * (y - 1970) + (y - 1969) div 4 - (y - 1901) div 100 + (y - 1601) div 400"

lemma div_step:
  fixes a n :: int
  assumes "0 < n"
  shows "(a + 1) div n = a div n + (if (a + 1) mod n = 0 then 1 else 0)"
proof (cases "a mod n + 1 < n")
  case True
  have e: "a + 1 = n * (a div n) + (a mod n + 1)" by simp
  have r: "0 \<le> a mod n + 1" using assms by (simp add: add_nonneg_nonneg)
  have "(a + 1) div n = a div n" using int_div_pos_eq [OF e r True] .
  moreover have "(a + 1) mod n = a mod n + 1" using int_mod_pos_eq [OF e r True] .
  moreover have "0 \<le> a mod n" using assms by simp
  ultimately show ?thesis by simp
next
  case False
  have "a mod n < n" using assms by simp
  with False have m: "a mod n + 1 = n" by linarith
  have "a + 1 = n * (a div n) + (a mod n + 1)" by simp
  with m have e: "a + 1 = n * (a div n + 1) + 0" by (simp add: algebra_simps)
  have "(a + 1) div n = a div n + 1" using int_div_pos_eq [OF e _ assms] by simp
  moreover have "(a + 1) mod n = 0" using int_mod_pos_eq [OF e _ assms] by simp
  ultimately show ?thesis by simp
qed

lemma sub_mult_mod: "((y::int) - k * n) mod n = y mod n"
proof -
  have "(y - k * n) mod n = (y + (- k) * n) mod n" by simp
  also have "\<dots> = y mod n" by (rule mod_mult_self1)
  finally show ?thesis .
qed

lemma mod4_shift: "((y::int) - 1968) mod 4 = 0 \<longleftrightarrow> y mod 4 = 0"
  using sub_mult_mod [of y 492 4] by simp

lemma mod100_shift: "((y::int) - 1900) mod 100 = 0 \<longleftrightarrow> y mod 100 = 0"
  using sub_mult_mod [of y 19 100] by simp

lemma mod400_shift: "((y::int) - 1600) mod 400 = 0 \<longleftrightarrow> y mod 400 = 0"
  using sub_mult_mod [of y 4 400] by simp

lemma mod100_mod4: "(y::int) mod 100 = 0 \<Longrightarrow> y mod 4 = 0"
proof -
  assume "y mod 100 = 0"
  then have "100 dvd y" by (simp add: mod_eq_0_iff_dvd)
  moreover have "(4::int) dvd 100" by simp
  ultimately have "4 dvd y" using dvd_trans by blast
  then show ?thesis by (simp add: mod_eq_0_iff_dvd)
qed

lemma mod400_mod100: "(y::int) mod 400 = 0 \<Longrightarrow> y mod 100 = 0"
proof -
  assume "y mod 400 = 0"
  then have "400 dvd y" by (simp add: mod_eq_0_iff_dvd)
  moreover have "(100::int) dvd 400" by simp
  ultimately have "100 dvd y" using dvd_trans by blast
  then show ?thesis by (simp add: mod_eq_0_iff_dvd)
qed

lemma DayFromYear_Suc: "DayFromYear (y + 1) = DayFromYear y + DaysInYear y"
proof -
  have a: "(y + 1 - 1969) div 4 = (y - 1969) div 4 + (if y mod 4 = 0 then 1 else 0)"
    using div_step [of 4 "y - 1969"] mod4_shift [of y] by (simp add: algebra_simps)
  have b: "(y + 1 - 1901) div 100 = (y - 1901) div 100 + (if y mod 100 = 0 then 1 else 0)"
    using div_step [of 100 "y - 1901"] mod100_shift [of y] by (simp add: algebra_simps)
  have c: "(y + 1 - 1601) div 400 = (y - 1601) div 400 + (if y mod 400 = 0 then 1 else 0)"
    using div_step [of 400 "y - 1601"] mod400_shift [of y] by (simp add: algebra_simps)
  show ?thesis
    unfolding DayFromYear_def DaysInYear_def a b c
    using mod100_mod4 [of y] mod400_mod100 [of y] by auto
qed

lemma DaysInYear_bounds: "365 \<le> DaysInYear y \<and> DaysInYear y \<le> 366"
  by (simp add: DaysInYear_def)

lemma DayFromYear_span:
  "y \<le> y' \<Longrightarrow>
     DayFromYear y + 365 * (y' - y) \<le> DayFromYear y' \<and>
     DayFromYear y' \<le> DayFromYear y + 366 * (y' - y)"
proof (induction y' rule: int_ge_induct)
  case base
  show ?case by simp
next
  case (step i)
  have "DayFromYear (i + 1) = DayFromYear i + DaysInYear i"
    by (rule DayFromYear_Suc)
  with step.IH DaysInYear_bounds [of i] show ?case
    by (simp add: algebra_simps)
qed

lemma DayFromYear_mono:
  assumes "y \<le> y'"
  shows "DayFromYear y \<le> DayFromYear y'"
proof -
  from DayFromYear_span [OF assms]
  have "DayFromYear y + 365 * (y' - y) \<le> DayFromYear y'" by simp
  moreover from assms have "0 \<le> 365 * (y' - y)" by simp
  ultimately show ?thesis by linarith
qed

lemma DayFromYear_strict:
  assumes "y < y'"
  shows "DayFromYear y < DayFromYear y'"
proof -
  from assms have "y \<le> y'" by simp
  from DayFromYear_span [OF this]
  have "DayFromYear y + 365 * (y' - y) \<le> DayFromYear y'" by simp
  moreover from assms have "0 < 365 * (y' - y)" by simp
  ultimately show ?thesis by linarith
qed

text \<open>
  \<open>YearFromTime(t)\<close> is the largest \<open>y\<close> with \<open>TimeFromYear(y) \<le> t\<close>.  It is computed
  by a search upwards from a year that is not after the day \<open>d\<close>; the lemmas
  \<open>YearFromTime_bounds\<close> and \<open>YearFromTime_unique\<close> below show that the search
  returns the year of the standard.
\<close>

function YearFrom :: "int \<Rightarrow> int \<Rightarrow> int" where
  "YearFrom y d = (if DayFromYear (y + 1) \<le> d then YearFrom (y + 1) d else y)"
  by pat_completeness auto
termination
proof (relation "measure (\<lambda>(y, d). nat (d - DayFromYear y))")
  show "wf (measure (\<lambda>(y, d). nat (d - DayFromYear y)))" by simp
next
  fix y d :: int
  assume "DayFromYear (y + 1) \<le> d"
  with DayFromYear_strict [of "y + 1" "y + 2"] DayFromYear_strict [of y "y + 1"]
  show "((y + 1, d), (y, d)) \<in> measure (\<lambda>(y, d). nat (d - DayFromYear y))"
    by simp
qed

declare YearFrom.simps [simp del]

definition YearFromTime :: "int \<Rightarrow> int" where
  "YearFromTime t =
     (let d = Day t
      in YearFrom (1970 + (if 0 \<le> d then d div 366 else d div 365)) d)"

definition InLeapYear :: "int \<Rightarrow> int" where
  "InLeapYear t = (if DaysInYear (YearFromTime t) = 366 then 1 else 0)"

definition DayWithinYear :: "int \<Rightarrow> int" where
  "DayWithinYear t = Day t - DayFromYear (YearFromTime t)"

definition MonthFromTime :: "int \<Rightarrow> int" where
  "MonthFromTime t =
     (let d = DayWithinYear t; l = InLeapYear t
      in if d < 31 then 0
         else if d < 59 + l then 1
         else if d < 90 + l then 2
         else if d < 120 + l then 3
         else if d < 151 + l then 4
         else if d < 181 + l then 5
         else if d < 212 + l then 6
         else if d < 243 + l then 7
         else if d < 273 + l then 8
         else if d < 304 + l then 9
         else if d < 334 + l then 10
         else 11)"

definition DateFromTime :: "int \<Rightarrow> int" where
  "DateFromTime t =
     (let d = DayWithinYear t; l = InLeapYear t; m = MonthFromTime t
      in if m = 0 then d + 1
         else if m = 1 then d - 30
         else if m = 2 then d - 58 - l
         else if m = 3 then d - 89 - l
         else if m = 4 then d - 119 - l
         else if m = 5 then d - 150 - l
         else if m = 6 then d - 180 - l
         else if m = 7 then d - 211 - l
         else if m = 8 then d - 242 - l
         else if m = 9 then d - 272 - l
         else if m = 10 then d - 303 - l
         else d - 333 - l)"

definition WeekDay :: "int \<Rightarrow> int" where
  "WeekDay t = (Day t + 4) mod 7"

text \<open>
  \<open>MakeDay(year, month, date)\<close> finds the day number of the first day of month
  \<open>month mod 12\<close> of year \<open>year + floor(month / 12)\<close> and adds \<open>date - 1\<close>.
  \<open>DaysBeforeMonth\<close> is the day within the year on which a month starts.
\<close>

definition DaysBeforeMonth :: "int \<Rightarrow> int \<Rightarrow> int" where
  "DaysBeforeMonth mn l =
     (if mn = 0 then 0
      else if mn = 1 then 31
      else if mn = 2 then 59 + l
      else if mn = 3 then 90 + l
      else if mn = 4 then 120 + l
      else if mn = 5 then 151 + l
      else if mn = 6 then 181 + l
      else if mn = 7 then 212 + l
      else if mn = 8 then 243 + l
      else if mn = 9 then 273 + l
      else if mn = 10 then 304 + l
      else 334 + l)"

definition MakeDay :: "int \<Rightarrow> int \<Rightarrow> int \<Rightarrow> int" where
  "MakeDay year month dt =
     (let ym = year + month div 12;
          mn = month mod 12
      in DayFromYear ym + DaysBeforeMonth mn (if DaysInYear ym = 366 then 1 else 0) + dt - 1)"

definition MakeTime :: "int \<Rightarrow> int \<Rightarrow> int \<Rightarrow> int \<Rightarrow> int" where
  "MakeTime hour minute sec ms = hour * 3600000 + minute * 60000 + sec * 1000 + ms"

definition MakeDate :: "int \<Rightarrow> int \<Rightarrow> int" where
  "MakeDate day time = day * msPerDay + time"

definition TimeClip :: "int \<Rightarrow> Date" where
  "TimeClip t = (if \<bar>t\<bar> > 8640000000000000 then None else Some t)"

text \<open>
  \<open>new Date(year, month, date)\<close>: a year from 0 to 99 means 1900 + year; the fields
  are read in local time; hours, minutes, seconds and milliseconds default to 0.
\<close>

definition new_Date :: "number \<Rightarrow> number \<Rightarrow> number \<Rightarrow> Date" where
  "new_Date year month dt =
     (case (year, month, dt) of
        (Some y, Some m, Some d) \<Rightarrow>
          (let yr = (if 0 \<le> y \<and> y \<le> 99 then 1900 + y else y)
           in TimeClip (UTC (MakeDate (MakeDay yr m d) (MakeTime 0 0 0 0))))
      | _ \<Rightarrow> None)"

definition getFullYear :: "Date \<Rightarrow> number" where
  "getFullYear d = map_option (\<lambda>t. YearFromTime (LocalTime t)) d"

definition getMonth :: "Date \<Rightarrow> number" where
  "getMonth d = map_option (\<lambda>t. MonthFromTime (LocalTime t)) d"

definition getDate :: "Date \<Rightarrow> number" where
  "getDate d = map_option (\<lambda>t. DateFromTime (LocalTime t)) d"

definition getDay :: "Date \<Rightarrow> number" where
  "getDay d = map_option (\<lambda>t. WeekDay (LocalTime t)) d"

text \<open>
  \<open>toDateString()\<close> renders the local weekday, month, day of the month and year, as in
  \<open>Fri Mar 01 2024\<close>, and \<open>Invalid Date\<close> for \<open>NaN\<close>.  The rendering is one-to-one on
  these four numbers, which stand here for the string.
\<close>

datatype date_string = Invalid_Date | Date_String int int int int

definition toDateString :: "Date \<Rightarrow> date_string" where
  "toDateString d =
     (case d of
        None \<Rightarrow> Invalid_Date
      | Some tv \<Rightarrow>
          (let t = LocalTime tv
           in Date_String (WeekDay t) (MonthFromTime t) (DateFromTime t) (YearFromTime t)))"

subsection \<open>Facts about the Date operations\<close>

lemma LocalTime_simp [simp]: "LocalTime t = t"
  by (simp add: LocalTime_def LocalTZA_def)

lemma UTC_simp [simp]: "UTC t = t"
  by (simp add: UTC_def LocalTZA_def)

lemma DayFromYear_1970 [simp]: "DayFromYear 1970 = 0"
  by (simp add: DayFromYear_def)

lemma YearFrom_bounds:
  "DayFromYear y \<le> d \<Longrightarrow>
     DayFromYear (YearFrom y d) \<le> d \<and> d < DayFromYear (YearFrom y d + 1)"
proof (induction y d rule: YearFrom.induct)
  case (1 y d)
  show ?case
  proof (cases "DayFromYear (y + 1) \<le> d")
    case True
    with "1.IH" have "DayFromYear (YearFrom (y + 1) d) \<le> d \<and> d < DayFromYear (YearFrom (y + 1) d + 1)"
      by simp
    moreover from True have "YearFrom y d = YearFrom (y + 1) d"
      by (simp add: YearFrom.simps [of y d])
    ultimately show ?thesis by simp
  next
    case False
    then have "YearFrom y d = y" by (simp add: YearFrom.simps [of y d])
    with False "1.prems" show ?thesis by simp
  qed
qed

lemma year_estimate: "DayFromYear (1970 + (if 0 \<le> d then d div 366 else d div 365)) \<le> d"
proof (cases "0 \<le> d")
  case True
  then have k: "(1970::int) \<le> 1970 + d div 366" by (simp add: pos_imp_zdiv_nonneg_iff)
  from DayFromYear_span [OF k]
  have "DayFromYear (1970 + d div 366) \<le> 366 * (d div 366)" by simp
  moreover have "366 * (d div 366) + d mod 366 = d" by simp
  moreover have "0 \<le> d mod 366" by simp
  ultimately show ?thesis using True by (simp del: mult_div_mod_eq)
next
  case False
  then have "d div 365 < 0" by (simp add: div_neg_pos_less0)
  then have k: "1970 + d div 365 \<le> (1970::int)" by simp
  from DayFromYear_span [OF k]
  have "DayFromYear (1970 + d div 365) \<le> 365 * (d div 365)" by simp
  moreover have "365 * (d div 365) + d mod 365 = d" by simp
  moreover have "0 \<le> d mod 365" by simp
  ultimately show ?thesis using False by (simp del: mult_div_mod_eq)
qed

lemma YearFromTime_bounds:
  "DayFromYear (YearFromTime t) \<le> Day t \<and> Day t < DayFromYear (YearFromTime t + 1)"
  unfolding YearFromTime_def Let_def
  by (rule YearFrom_bounds) (rule year_estimate)

lemma year_unique:
  assumes "DayFromYear y \<le> d" "d < DayFromYear (y + 1)"
    and "DayFromYear y' \<le> d" "d < DayFromYear (y' + 1)"
  shows "y = y'"
proof (rule ccontr)
  assume "y \<noteq> y'"
  then consider "y + 1 \<le> y'" | "y' + 1 \<le> y" by linarith
  then show False
  proof cases
    case 1
    from DayFromYear_mono [OF 1] assms show False by linarith
  next
    case 2
    from DayFromYear_mono [OF 2] assms show False by linarith
  qed
qed

lemma YearFromTime_unique:
  "DayFromYear y \<le> Day t \<Longrightarrow> Day t < DayFromYear (y + 1) \<Longrightarrow> YearFromTime t = y"
  using YearFromTime_bounds [of t] year_unique [of "YearFromTime t" "Day t" y] by simp

text \<open>The year found is the largest year that starts on or before the day.\<close>

lemma YearFromTime_greatest:
  "DayFromYear (YearFromTime t) \<le> Day t
   \<and> (\<forall>y. DayFromYear y \<le> Day t \<longrightarrow> y \<le> YearFromTime t)"
proof (intro conjI allI impI)
  show "DayFromYear (YearFromTime t) \<le> Day t"
    using YearFromTime_bounds [of t] by simp
next
  fix y assume y: "DayFromYear y \<le> Day t"
  show "y \<le> YearFromTime t"
  proof (rule ccontr)
    assume "\<not> y \<le> YearFromTime t"
    then have "YearFromTime t + 1 \<le> y" by simp
    from DayFromYear_mono [OF this] y YearFromTime_bounds [of t]
    show False by linarith
  qed
qed

lemma DayWithinYear_bounds:
  "0 \<le> DayWithinYear t \<and> DayWithinYear t < 365 + InLeapYear t"
proof -
  have "DaysInYear (YearFromTime t) = 365 + InLeapYear t"
    using DaysInYear_bounds [of "YearFromTime t"] by (simp add: InLeapYear_def)
  with YearFromTime_bounds [of t] DayFromYear_Suc [of "YearFromTime t"]
  show ?thesis by (simp add: DayWithinYear_def)
qed

lemma InLeapYear_cases: "InLeapYear t = 0 \<or> InLeapYear t = 1"
  by (simp add: InLeapYear_def)

lemma MonthFromTime_range: "0 \<le> MonthFromTime t \<and> MonthFromTime t \<le> 11"
  by (simp add: MonthFromTime_def Let_def)

lemma DateFromTime_eq:
  "DateFromTime t = DayWithinYear t - DaysBeforeMonth (MonthFromTime t) (InLeapYear t) + 1"
  using MonthFromTime_range [of t]
  by (simp add: DateFromTime_def DaysBeforeMonth_def Let_def)

lemma MakeDay_roundtrip:
  "MakeDay (YearFromTime t) (MonthFromTime t) dt = Day t - DateFromTime t + dt"
proof -
  from MonthFromTime_range [of t]
  have "MonthFromTime t div 12 = 0" "MonthFromTime t mod 12 = MonthFromTime t"
    by simp_all
  then show ?thesis
    by (simp add: MakeDay_def DateFromTime_eq DayWithinYear_def InLeapYear_def)
qed

section \<open>The Date object in the host's time zone\<close>

text \<open>
  The implementation-defined \<open>LocalTZA(t, isUTC)\<close> of the standard is the host zone's
  offset from UTC in milliseconds: at the UTC time value \<open>t\<close> when \<open>isUTC\<close> is true, and
  for the local time value \<open>t\<close> otherwise, where a local time that a change of offset
  skips or repeats is read with the offset before the change.  A zone is this function.
  \<open>LocalTime(t) = t + LocalTZA(t, true)\<close> and \<open>UTC(t) = t - LocalTZA(t, false)\<close>.
\<close>

type_synonym zone = "int \<Rightarrow> bool \<Rightarrow> int"

definition LocalTime_in :: "zone \<Rightarrow> int \<Rightarrow> int" where
  "LocalTime_in z t = t + z t True"

definition UTC_in :: "zone \<Rightarrow> int \<Rightarrow> int" where
  "UTC_in z t = t - z t False"

definition new_Date_in :: "zone \<Rightarrow> number \<Rightarrow> number \<Rightarrow> number \<Rightarrow> Date" where
  "new_Date_in z year month dt =
     (case (year, month, dt) of
        (Some y, Some m, Some d) \<Rightarrow>
          (let yr = (if 0 \<le> y \<and> y \<le> 99 then 1900 + y else y)
           in TimeClip (UTC_in z (MakeDate (MakeDay yr m d) (MakeTime 0 0 0 0))))
      | _ \<Rightarrow> None)"

definition getFullYear_in :: "zone \<Rightarrow> Date \<Rightarrow> number" where
  "getFullYear_in z d = map_option (\<lambda>t. YearFromTime (LocalTime_in z t)) d"

definition getMonth_in :: "zone \<Rightarrow> Date \<Rightarrow> number" where
  "getMonth_in z d = map_option (\<lambda>t. MonthFromTime (LocalTime_in z t)) d"

definition getDate_in :: "zone \<Rightarrow> Date \<Rightarrow> number" where
  "getDate_in z d = map_option (\<lambda>t. DateFromTime (LocalTime_in z t)) d"

definition getDay_in :: "zone \<Rightarrow> Date \<Rightarrow> number" where
  "getDay_in z d = map_option (\<lambda>t. WeekDay (LocalTime_in z t)) d"


definition toDateString_in :: "zone \<Rightarrow> Date \<Rightarrow> date_string" where
  "toDateString_in z d =
     (case d of
        None \<Rightarrow> Invalid_Date
      | Some tv \<Rightarrow>
          (let t = LocalTime_in z tv
           in Date_String (WeekDay t) (MonthFromTime t) (DateFromTime t) (YearFromTime t)))"

text \<open>The zone of a host at UTC; with it the operations are those of the section before.\<close>

definition UTC_zone :: zone where
  "UTC_zone t isUTC = 0"

lemma UTC_zone_operations:
  "new_Date_in UTC_zone y m dt = new_Date y m dt"
  "getFullYear_in UTC_zone d = getFullYear d"
  "getMonth_in UTC_zone d = getMonth d"
  "getDate_in UTC_zone d = getDate d"
  "getDay_in UTC_zone d = getDay d"
  "toDateString_in UTC_zone d = toDateString d"
  by (auto simp: new_Date_in_def new_Date_def getFullYear_in_def getFullYear_def
      getMonth_in_def getMonth_def getDate_in_def getDate_def getDay_in_def getDay_def
      toDateString_in_def toDateString_def LocalTime_in_def UTC_in_def UTC_zone_def
      split: option.splits)

section \<open>types.ts\<close>

datatype PostStatus = Draft | PendingReview | NeedsRevision | Approved

datatype Author = Designer | Reviewer

record Comment =
  comment_id :: string
  author :: Author
  comment_text :: string
  timestamp :: Date

text \<open>
  \<open>Post\<close> and the argument of \<open>onSave\<close>, \<open>Omit<Post, 'id'> & { id?: string }\<close>, share all
  fields but \<open>id\<close>; the modal's edit buffer holds four of them.  The shared fields are
  the parent records.
\<close>

record content =
  images :: "string list"
  caption :: string
  status :: PostStatus
  comments :: "Comment list"

record dated_content = content +
  date :: Date

record Post = dated_content +
  post_id :: string

record PostInput = dated_content +
  input_id :: "string option"

section \<open>services/geminiService.ts\<close>

record inlineData =
  mimeType :: string
  data :: "string option"

datatype part = InlineData inlineData | TextPart string

record GenerateContentParameters =
  model :: string
  parts :: "part list"

text \<open>
  The regular expression \<open>/:(.*?);/\<close>: from the leftmost colon after which a semicolon
  comes before any line terminator, the shortest run of characters up to that semicolon.
\<close>

fun up_to_semicolon :: "string \<Rightarrow> string option" where
  "up_to_semicolon [] = None"
| "up_to_semicolon (c # cs) =
     (if c = CHR '';'' then Some []
      else if c = CHR 0x0A \<or> c = CHR 0x0D then None
      else map_option (\<lambda>g. c # g) (up_to_semicolon cs))"

fun match_mime :: "string \<Rightarrow> string option" where
  "match_mime [] = None"
| "match_mime (c # cs) =
     (if c = CHR '':'' then
        (case up_to_semicolon cs of Some g \<Rightarrow> Some g | None \<Rightarrow> match_mime cs)
      else match_mime cs)"

definition base64ToInlineData :: "string \<Rightarrow> inlineData" where
  "base64ToInlineData base64String =
     (let metadata = takeWhile (\<lambda>c. c \<noteq> CHR '','') base64String;
          data = (case dropWhile (\<lambda>c. c \<noteq> CHR '','') base64String of
                    [] \<Rightarrow> None
                  | _ # rest \<Rightarrow> Some (takeWhile (\<lambda>c. c \<noteq> CHR '','') rest));
          mimeType = (case match_mime metadata of
                        None \<Rightarrow> ''image/jpeg''
                      | Some g \<Rightarrow> if g = [] then ''image/jpeg'' else g)
      in \<lparr>mimeType = mimeType, data = data\<rparr>)"

text \<open>
  \<open>suggestCaption\<close>.  \<open>API_KEY\<close> is the environment variable read when the module loads,
  and \<open>generateContent\<close> is the remote call of the client library: it yields the
  response's text or throws.  Both are parameters.  \<open>caption_request\<close> is the argument
  of the call, built inside the \<open>try\<close> block; building it cannot throw.
\<close>

definition caption_request :: "string list \<Rightarrow> GenerateContentParameters" where
  "caption_request imgs =
     (let imageParts = map (\<lambda>i. InlineData (base64ToInlineData i)) imgs
      in \<lparr>model = ''gemini-2.5-flash'',
          parts = imageParts @
            [TextPart ''Write a captivating Instagram caption for these images. Include relevant hashtags. The caption should be engaging and encourage interaction.'']\<rparr>)"

definition suggestCaption ::
  "string option \<Rightarrow> (GenerateContentParameters \<Rightarrow> string completion) \<Rightarrow> string list
     \<Rightarrow> string completion"
where
  "suggestCaption API_KEY generateContent imgs =
     (if \<not> truthy API_KEY then
        Normal ''API Key not configured. Please set the API_KEY environment variable.''
      else
        (case generateContent (caption_request imgs) of
           Normal response_text \<Rightarrow> Normal response_text
         | Throw error \<Rightarrow>
             Normal ''Sorry, I couldn't generate a caption right now. Please try again later.''))"

section \<open>App.tsx\<close>

text \<open>The component state of \<open>App\<close>: one field for each \<open>useState\<close>.\<close>

record App_state =
  currentDate :: Date
  posts :: "Post list"
  isModalOpen :: bool
  selectedPost :: "Post option"
  selectedDate :: "Date option"

text \<open>
  \<open>postsByDate\<close>: the \<open>Map\<close> from \<open>toDateString()\<close> keys to arrays of posts, filled by one
  pass over \<open>posts\<close>.  \<open>map.get(dateKey)?.push(post)\<close> appends to the array stored under
  the key.
\<close>

definition postsByDate_step ::
  "(date_string \<rightharpoonup> Post list) \<Rightarrow> Post \<Rightarrow> (date_string \<rightharpoonup> Post list)"
where
  "postsByDate_step m post =
     (let dateKey = toDateString (date post);
          m1 = (if m dateKey = None then m(dateKey \<mapsto> []) else m)
      in case m1 dateKey of
           None \<Rightarrow> m1
         | Some bucket \<Rightarrow> m1(dateKey \<mapsto> bucket @ [post]))"

definition postsByDate :: "Post list \<Rightarrow> (date_string \<rightharpoonup> Post list)" where
  "postsByDate ps = foldl postsByDate_step Map.empty ps"

definition handleSelectDate :: "Date \<Rightarrow> App_state \<Rightarrow> App_state" where
  "handleSelectDate d st = st\<lparr>selectedDate := Some d, selectedPost := None, isModalOpen := True\<rparr>"

definition handleSelectPost :: "Post \<Rightarrow> App_state \<Rightarrow> App_state" where
  "handleSelectPost p st = st\<lparr>selectedPost := Some p, selectedDate := None, isModalOpen := True\<rparr>"

definition handleCloseModal :: "App_state \<Rightarrow> App_state" where
  "handleCloseModal st = st\<lparr>isModalOpen := False, selectedPost := None, selectedDate := None\<rparr>"

text \<open>
  \<open>handleSavePost\<close>.  The first argument is the clock reading
  \<open>new Date().toISOString()\<close>.  In \<open>if (postToSave.id)\<close> an absent id and the empty
  string are both falsy.  \<open>{ ...p, ...postToSave, id: postToSave.id }\<close> takes every field
  from \<open>postToSave\<close>.
\<close>

definition handleSavePost :: "string \<Rightarrow> PostInput \<Rightarrow> App_state \<Rightarrow> App_state" where
  "handleSavePost now postToSave st =
     (let newPost = \<lparr>images = images postToSave, caption = caption postToSave,
                     status = status postToSave, comments = comments postToSave,
                     date = date postToSave, post_id = now\<rparr>;
          appended = st\<lparr>posts := posts st @ [newPost]\<rparr>
      in handleCloseModal
           (case input_id postToSave of
              None \<Rightarrow> appended
            | Some i \<Rightarrow>
                if i = [] then appended
                else st\<lparr>posts :=
                         map (\<lambda>p. if post_id p = i
                                  then \<lparr>images = images postToSave, caption = caption postToSave,
                                        status = status postToSave, comments = comments postToSave,
                                        date = date postToSave, post_id = i\<rparr>
                                  else p)
                             (posts st)\<rparr>))"

definition handleDeletePost :: "string \<Rightarrow> App_state \<Rightarrow> App_state" where
  "handleDeletePost postId st =
     handleCloseModal (st\<lparr>posts := filter (\<lambda>p. post_id p \<noteq> postId) (posts st)\<rparr>)"

definition goToPreviousMonth :: "App_state \<Rightarrow> App_state" where
  "goToPreviousMonth st =
     st\<lparr>currentDate :=
          new_Date (getFullYear (currentDate st)) (js_add (getMonth (currentDate st)) (- 1)) (Some 1)\<rparr>"

definition goToNextMonth :: "App_state \<Rightarrow> App_state" where
  "goToNextMonth st =
     st\<lparr>currentDate :=
          new_Date (getFullYear (currentDate st)) (js_add (getMonth (currentDate st)) 1) (Some 1)\<rparr>"

definition goToToday :: "Date \<Rightarrow> App_state \<Rightarrow> App_state" where
  "goToToday now st = st\<lparr>currentDate := now\<rparr>"

section \<open>components/PostModal.tsx\<close>

text \<open>
  \<open>String.prototype.trim\<close> removes white space and line terminators from both ends.
  A string is a list of code units; \<open>char\<close> holds the code units up to 0xFF, among
  which the white space and line terminators are TAB, LF, VT, FF, CR, SP and NBSP.
\<close>

definition isWhiteSpace :: "char \<Rightarrow> bool" where
  "isWhiteSpace c = (of_char c \<in> {9, 10, 11, 12, 13, 32, 160 :: nat})"

definition trim :: "string \<Rightarrow> string" where
  "trim s = rev (dropWhile isWhiteSpace (rev (dropWhile isWhiteSpace s)))"

text \<open>The props that the handlers read, and the component state (the edit buffer).\<close>

record PostModal_props =
  post :: "Post option"
  date_prop :: "Date option"

record PostModal_state = content +
  newComment :: string
  isGeneratingCaption :: bool

text \<open>
  \<open>handleSave\<close> returns normally on every path.  \<open>Normal None\<close> is the early \<open>return\<close>,
  \<open>Normal (Some input)\<close> is the call \<open>onSave(input)\<close>.  A \<open>Date\<close> object is truthy, so
  \<open>post?.date || date\<close> is the post's date whenever there is a post.
\<close>

definition handleSave :: "PostModal_props \<Rightarrow> PostModal_state \<Rightarrow> PostInput option completion" where
  "handleSave props st =
     (let postDate = (case post props of Some p \<Rightarrow> Some (date p) | None \<Rightarrow> date_prop props)
      in case postDate of
           None \<Rightarrow> Normal None
         | Some d \<Rightarrow>
             Normal (Some \<lparr>images = images st, caption = caption st, status = status st,
                           comments = comments st, date = d,
                           input_id = map_option post_id (post props)\<rparr>))"

text \<open>
  \<open>handleAddComment\<close>.  The two clock readings are \<open>new Date().toISOString()\<close> for the
  id and \<open>new Date()\<close> for the timestamp.
\<close>

definition handleAddComment :: "Author \<Rightarrow> string \<Rightarrow> Date \<Rightarrow> PostModal_state \<Rightarrow> PostModal_state" where
  "handleAddComment a now_iso now st =
     (if trim (newComment st) = [] then st
      else
        (let comment = \<lparr>comment_id = now_iso, author = a, comment_text = newComment st,
                        timestamp = now\<rparr>
         in st\<lparr>comments := comments st @ [comment], newComment := []\<rparr>))"

text \<open>
  The Save Post button, as \<open>App\<close> wires it: the modal gets \<open>selectedPost\<close> and
  \<open>selectedDate\<close> as \<open>post\<close> and \<open>date\<close>, and \<open>handleSavePost\<close> as \<open>onSave\<close>.
\<close>

definition Save_Post_click :: "string \<Rightarrow> PostModal_state \<Rightarrow> App_state \<Rightarrow> App_state completion" where
  "Save_Post_click now buffer app =
     (case handleSave \<lparr>post = selectedPost app, date_prop = selectedDate app\<rparr> buffer of
        Throw e \<Rightarrow> Throw e
      | Normal None \<Rightarrow> Normal app
      | Normal (Some input) \<Rightarrow> Normal (handleSavePost now input app))"

section \<open>components/Calendar.tsx\<close>






section \<open>Reference notions\<close>

text \<open>
  The number of days of month \<open>m\<close> (0 is January) of year \<open>y\<close> in the Gregorian
  calendar.  It is the yardstick for the calendar grid and is not used by the program.
\<close>

definition DaysInMonth :: "int \<Rightarrow> int \<Rightarrow> int" where
  "DaysInMonth y m =
     (if m = 1 then (if DaysInYear y = 366 then 29 else 28)
      else if m = 3 \<or> m = 5 \<or> m = 8 \<or> m = 10 then 30
      else 31)"

text \<open>The posts of a list whose date has a given key, in the order of the list.\<close>

definition bucket_of :: "Post list \<Rightarrow> date_string \<Rightarrow> Post list" where
  "bucket_of ps k = filter (\<lambda>p. toDateString (date p) = k) ps"

section \<open>Example values\<close>

text \<open>Posts, inputs, application states and edit buffers for the examples below.\<close>

definition example_post :: "string \<Rightarrow> string \<Rightarrow> Post" where
  "example_post i c =
     \<lparr>images = [], caption = c, status = Draft, comments = [],
      date = Some 1710028800000, post_id = i\<rparr>"

definition example_input :: "string option \<Rightarrow> PostInput" where
  "example_input i =
     \<lparr>images = [''data:image/png;base64,AAAA''], caption = ''edited'', status = Approved,
      comments = [], date = Some 1710547200000, input_id = i\<rparr>"

definition example_state :: "Post list \<Rightarrow> App_state" where
  "example_state ps =
     \<lparr>currentDate = Some 1710028800000, posts = ps, isModalOpen = True,
      selectedPost = None, selectedDate = None\<rparr>"

definition example_buffer :: "string \<Rightarrow> PostModal_state" where
  "example_buffer c =
     \<lparr>images = [], caption = ''draft'', status = Draft,
      comments = [\<lparr>comment_id = ''c1'', author = Reviewer, comment_text = ''Looks great!'',
                   timestamp = Some 1710028800000\<rparr>],
      newComment = c, isGeneratingCaption = False\<rparr>"


section \<open>The post store\<close>

lemma posts_handleCloseModal [simp]: "posts (handleCloseModal st) = posts st"
  by (simp add: handleCloseModal_def)

lemma currentDate_handleCloseModal [simp]: "currentDate (handleCloseModal st) = currentDate st"
  by (simp add: handleCloseModal_def)

subsection \<open>C1: saving without an id\<close>

text \<open>
  C1, as the code has it.  For every store and every input whose id is absent,
  \<open>handleSavePost\<close> appends exactly one post, built from the input's fields, so the list
  is one entry longer; the new post's id is the clock's ISO timestamp, and it differs
  from every id already in the store whenever no stored post carries that timestamp as
  its id.
\<close>

theorem save_without_id_appends:
  assumes "input_id inp = None"
  shows "\<exists>new. posts (handleSavePost now inp st) = posts st @ [new]
           \<and> length (posts (handleSavePost now inp st)) = length (posts st) + 1
           \<and> post_id new = now
           \<and> date new = date inp \<and> images new = images inp \<and> caption new = caption inp
           \<and> status new = status inp \<and> comments new = comments inp
           \<and> (now \<notin> post_id ` set (posts st) \<longrightarrow> (\<forall>p\<in>set (posts st). post_id new \<noteq> post_id p))"
  using assms by (auto simp: handleSavePost_def Let_def)

text \<open>A store of one post and a save without id at 09:00 on 2024-03-10.\<close>

theorem save_without_id_appends_witness:
  "input_id (example_input None) = None
   \<and> posts (handleSavePost ''2024-03-10T09:00:00.000Z'' (example_input None)
              (example_state [example_post ''1'' ''a'']))
       = [example_post ''1'' ''a'',
          \<lparr>images = [''data:image/png;base64,AAAA''], caption = ''edited'', status = Approved,
           comments = [], date = Some 1710547200000, post_id = ''2024-03-10T09:00:00.000Z''\<rparr>]"
  using save_without_id_appends [of "example_input None" "''2024-03-10T09:00:00.000Z''"
      "example_state [example_post ''1'' ''a'']"]
  by (simp add: handleSavePost_def example_input_def example_state_def example_post_def Let_def)

text \<open>
  Freshness of the id as C1 states it fails: two saves that read the same clock
  value give two posts with the same id.
\<close>

theorem save_same_instant_counterexample:
  "input_id (example_input None) = None
   \<and> post_id (last (posts (handleSavePost ''2024-03-10T09:00:00.000Z'' (example_input None)
        (handleSavePost ''2024-03-10T09:00:00.000Z'' (example_input None) (example_state [])))))
       \<in> post_id ` set (posts
            (handleSavePost ''2024-03-10T09:00:00.000Z'' (example_input None) (example_state [])))"
  by (simp add: handleSavePost_def example_input_def example_state_def Let_def)

subsection \<open>C2: saving with the id of a stored post\<close>

text \<open>
  C2, as the code has it.  For every store and every stored post \<open>P\<close> whose id is not the
  empty string, saving an input that carries \<open>P\<close>'s id keeps the length of the list; every
  entry with \<open>P\<close>'s id becomes the post with that id and the input's date, images,
  caption, status and comments; every other entry is unchanged; and an entry with
  \<open>P\<close>'s id is still there.
\<close>

theorem save_with_id_replaces:
  assumes "P \<in> set (posts st)" and "post_id P \<noteq> []" and "input_id inp = Some (post_id P)"
  shows "length (posts (handleSavePost now inp st)) = length (posts st)
         \<and> (\<forall>k<length (posts st).
               (post_id (posts st ! k) = post_id P \<longrightarrow>
                  posts (handleSavePost now inp st) ! k =
                    \<lparr>images = images inp, caption = caption inp, status = status inp,
                     comments = comments inp, date = date inp, post_id = post_id P\<rparr>)
               \<and> (post_id (posts st ! k) \<noteq> post_id P \<longrightarrow>
                    posts (handleSavePost now inp st) ! k = posts st ! k))
         \<and> (\<exists>k<length (posts st). post_id (posts (handleSavePost now inp st) ! k) = post_id P)"
proof -
  from assms(1) obtain k where "k < length (posts st)" "posts st ! k = P"
    by (auto simp: in_set_conv_nth)
  then show ?thesis using assms(2,3)
    by (auto simp: handleSavePost_def Let_def)
qed

text \<open>Two stored posts; the second is saved with new field values.\<close>

theorem save_with_id_replaces_witness:
  "example_post ''2'' ''b'' \<in> set (posts (example_state [example_post ''1'' ''a'', example_post ''2'' ''b'']))
   \<and> post_id (example_post ''2'' ''b'') \<noteq> []
   \<and> input_id (example_input (Some ''2'')) = Some (post_id (example_post ''2'' ''b''))
   \<and> posts (handleSavePost ''2024-03-10T09:00:00.000Z'' (example_input (Some ''2''))
              (example_state [example_post ''1'' ''a'', example_post ''2'' ''b'']))
       = [example_post ''1'' ''a'',
          \<lparr>images = [''data:image/png;base64,AAAA''], caption = ''edited'', status = Approved,
           comments = [], date = Some 1710547200000, post_id = ''2''\<rparr>]"
  using save_with_id_replaces [of "example_post ''2'' ''b''"
      "example_state [example_post ''1'' ''a'', example_post ''2'' ''b'']"
      "example_input (Some ''2'')" "''2024-03-10T09:00:00.000Z''"]
  by (simp add: handleSavePost_def example_input_def example_state_def example_post_def Let_def)

text \<open>
  C2 as stated fails for a stored post whose id is the empty string: the id is falsy,
  the save takes the create branch and the list grows.
\<close>

theorem save_empty_id_counterexample:
  "example_post [] ''a'' \<in> set (posts (example_state [example_post [] ''a'']))
   \<and> input_id (example_input (Some [])) = Some (post_id (example_post [] ''a''))
   \<and> length (posts (handleSavePost ''2024-03-10T09:00:00.000Z'' (example_input (Some []))
                (example_state [example_post [] ''a''])))
       \<noteq> length (posts (example_state [example_post [] ''a'']))"
  by (simp add: handleSavePost_def example_input_def example_state_def example_post_def Let_def)

subsection \<open>C5: deleting\<close>

text \<open>
  C5.  After \<open>handleDeletePost postId\<close> no post of the list has that id; and when no post
  had that id, the list is the same as before.
\<close>

theorem delete_removes_id:
  "(\<forall>p\<in>set (posts (handleDeletePost postId st)). post_id p \<noteq> postId)
   \<and> ((\<forall>p\<in>set (posts st). post_id p \<noteq> postId) \<longrightarrow>
        posts (handleDeletePost postId st) = posts st)"
  by (auto simp: handleDeletePost_def filter_id_conv)

text \<open>Deleting a stored id and an unknown id from a store of two posts.\<close>

theorem delete_removes_id_witness:
  "posts (handleDeletePost ''1'' (example_state [example_post ''1'' ''a'', example_post ''2'' ''b'']))
     = [example_post ''2'' ''b'']
   \<and> posts (handleDeletePost ''7'' (example_state [example_post ''1'' ''a'', example_post ''2'' ''b'']))
     = [example_post ''1'' ''a'', example_post ''2'' ''b'']"
  using delete_removes_id [of "''1''" "example_state [example_post ''1'' ''a'', example_post ''2'' ''b'']"]
    delete_removes_id [of "''7''" "example_state [example_post ''1'' ''a'', example_post ''2'' ''b'']"]
  by (simp add: handleDeletePost_def example_state_def example_post_def)

subsection \<open>C10: saving with an id that no stored post has\<close>

text \<open>
  C10, as the code has it.  For every store and every input whose id is present, is not
  the empty string and is the id of no stored post, \<open>handleSavePost\<close> leaves the list of
  posts as it was: nothing is created and nothing is modified.
\<close>

theorem save_unknown_id_noop:
  assumes "input_id inp = Some i" and "i \<noteq> []" and "i \<notin> post_id ` set (posts st)"
  shows "posts (handleSavePost now inp st) = posts st
         \<and> currentDate (handleSavePost now inp st) = currentDate st"
proof -
  from assms(3) have "map (\<lambda>p. if post_id p = i then
        \<lparr>images = images inp, caption = caption inp, status = status inp,
         comments = comments inp, date = date inp, post_id = i\<rparr> else p) (posts st) = posts st"
    by (intro map_idI) auto
  with assms(1,2) show ?thesis by (simp add: handleSavePost_def Let_def)
qed

text \<open>Saving under the unknown id 7.\<close>

theorem save_unknown_id_noop_witness:
  "input_id (example_input (Some ''7'')) = Some ''7'' \<and> ''7'' \<noteq> []
   \<and> ''7'' \<notin> post_id ` set (posts (example_state [example_post ''1'' ''a'']))
   \<and> posts (handleSavePost ''2024-03-10T09:00:00.000Z'' (example_input (Some ''7''))
              (example_state [example_post ''1'' ''a'']))
       = [example_post ''1'' ''a'']"
  using save_unknown_id_noop [of "example_input (Some ''7'')" "''7''"
      "example_state [example_post ''1'' ''a'']" "''2024-03-10T09:00:00.000Z''"]
  by (simp add: example_input_def example_state_def example_post_def)

text \<open>
  C10 as stated fails when the id that is present is the empty string: it matches no
  stored post, yet a post is appended.
\<close>

theorem save_unknown_empty_id_counterexample:
  "input_id (example_input (Some [])) = Some []
   \<and> [] \<notin> post_id ` set (posts (example_state [example_post ''1'' ''a'']))
   \<and> posts (handleSavePost ''2024-03-10T09:00:00.000Z'' (example_input (Some []))
              (example_state [example_post ''1'' ''a'']))
       \<noteq> posts (example_state [example_post ''1'' ''a''])"
  by (simp add: handleSavePost_def example_input_def example_state_def example_post_def Let_def)

section \<open>Bucketing posts by day\<close>

text \<open>The calendar fields of a time value depend on its day number only.\<close>

lemma YearFromTime_cong: "Day t1 = Day t2 \<Longrightarrow> YearFromTime t1 = YearFromTime t2"
  by (simp add: YearFromTime_def)

lemma DayWithinYear_cong: "Day t1 = Day t2 \<Longrightarrow> DayWithinYear t1 = DayWithinYear t2"
  by (simp add: DayWithinYear_def YearFromTime_cong [of t1 t2])

lemma InLeapYear_cong: "Day t1 = Day t2 \<Longrightarrow> InLeapYear t1 = InLeapYear t2"
  by (simp add: InLeapYear_def YearFromTime_cong [of t1 t2])

lemma MonthFromTime_cong: "Day t1 = Day t2 \<Longrightarrow> MonthFromTime t1 = MonthFromTime t2"
  by (simp add: MonthFromTime_def DayWithinYear_cong [of t1 t2] InLeapYear_cong [of t1 t2])

lemma DateFromTime_cong: "Day t1 = Day t2 \<Longrightarrow> DateFromTime t1 = DateFromTime t2"
  by (simp add: DateFromTime_def DayWithinYear_cong [of t1 t2] InLeapYear_cong [of t1 t2]
      MonthFromTime_cong [of t1 t2])

lemma WeekDay_cong: "Day t1 = Day t2 \<Longrightarrow> WeekDay t1 = WeekDay t2"
  by (simp add: WeekDay_def)

lemma Day_from_fields: "Day t = MakeDay (YearFromTime t) (MonthFromTime t) (DateFromTime t)"
  by (simp add: MakeDay_roundtrip)

lemma toDateString_eq_iff:
  "toDateString (Some t1) = toDateString (Some t2) \<longleftrightarrow> Day (LocalTime t1) = Day (LocalTime t2)"
proof
  assume "toDateString (Some t1) = toDateString (Some t2)"
  then have "YearFromTime t1 = YearFromTime t2" "MonthFromTime t1 = MonthFromTime t2"
    "DateFromTime t1 = DateFromTime t2"
    by (simp_all add: toDateString_def)
  with Day_from_fields [of t1] Day_from_fields [of t2]
  show "Day (LocalTime t1) = Day (LocalTime t2)" by simp
next
  assume "Day (LocalTime t1) = Day (LocalTime t2)"
  then have d: "Day t1 = Day t2" by simp
  show "toDateString (Some t1) = toDateString (Some t2)"
    by (simp add: toDateString_def YearFromTime_cong [OF d] MonthFromTime_cong [OF d]
        DateFromTime_cong [OF d] WeekDay_cong [OF d])
qed

lemma toDateString_Invalid_iff: "toDateString d = Invalid_Date \<longleftrightarrow> d = None"
  by (cases d) (simp_all add: toDateString_def)

lemma postsByDate_step_lookup:
  "postsByDate_step m p k =
     (if k = toDateString (date p)
      then Some ((case m k of None \<Rightarrow> [] | Some b \<Rightarrow> b) @ [p])
      else m k)"
  by (simp add: postsByDate_step_def Let_def split: option.splits)

lemma postsByDate_snoc:
  "postsByDate (ps @ [p]) = postsByDate_step (postsByDate ps) p"
  by (simp add: postsByDate_def)

lemma postsByDate_lookup:
  "postsByDate ps k = (if bucket_of ps k = [] then None else Some (bucket_of ps k))"
proof (induction ps rule: rev_induct)
  case Nil
  show ?case by (simp add: postsByDate_def bucket_of_def)
next
  case (snoc p ps)
  show ?case
  proof (cases "k = toDateString (date p)")
    case True
    with snoc show ?thesis
      by (simp add: postsByDate_snoc postsByDate_step_lookup bucket_of_def)
  next
    case False
    with snoc show ?thesis
      by (simp add: postsByDate_snoc postsByDate_step_lookup bucket_of_def)
  qed
qed

subsection \<open>C4: the buckets partition the posts\<close>

text \<open>
  C4.  For every list of posts, the bucket that \<open>postsByDate\<close> holds under a key is the
  sublist of the posts whose date has that key, in the order of the list, and a key with
  no post has no bucket.  So every post of the list lies in the bucket under the key of
  its own date and in no other bucket.  Two valid dates have the same key exactly when
  they fall on the same local calendar day, whatever the time of day, and the key of
  invalid dates is held by invalid dates only.
\<close>

theorem postsByDate_partition:
  "postsByDate ps k =
     (if filter (\<lambda>p. toDateString (date p) = k) ps = [] then None
      else Some (filter (\<lambda>p. toDateString (date p) = k) ps))
   \<and> (\<forall>p\<in>set ps. \<exists>b. postsByDate ps (toDateString (date p)) = Some b \<and> p \<in> set b
          \<and> (\<forall>k' b'. postsByDate ps k' = Some b' \<and> p \<in> set b' \<longrightarrow> k' = toDateString (date p)))
   \<and> (toDateString (Some t1) = toDateString (Some t2)
        \<longleftrightarrow> Day (LocalTime t1) = Day (LocalTime t2))
   \<and> (toDateString d = Invalid_Date \<longleftrightarrow> d = None)"
proof (intro conjI)
  show "postsByDate ps k =
     (if filter (\<lambda>p. toDateString (date p) = k) ps = [] then None
      else Some (filter (\<lambda>p. toDateString (date p) = k) ps))"
    using postsByDate_lookup [of ps k] by (simp add: bucket_of_def)
  show "\<forall>p\<in>set ps. \<exists>b. postsByDate ps (toDateString (date p)) = Some b \<and> p \<in> set b
          \<and> (\<forall>k' b'. postsByDate ps k' = Some b' \<and> p \<in> set b' \<longrightarrow> k' = toDateString (date p))"
  proof
    fix p assume p: "p \<in> set ps"
    then have ne: "bucket_of ps (toDateString (date p)) \<noteq> []"
      by (auto simp: bucket_of_def filter_empty_conv)
    have "\<forall>k' b'. postsByDate ps k' = Some b' \<and> p \<in> set b' \<longrightarrow> k' = toDateString (date p)"
      by (auto simp: postsByDate_lookup bucket_of_def split: if_splits)
    with p ne show "\<exists>b. postsByDate ps (toDateString (date p)) = Some b \<and> p \<in> set b
          \<and> (\<forall>k' b'. postsByDate ps k' = Some b' \<and> p \<in> set b' \<longrightarrow> k' = toDateString (date p))"
      by (simp add: postsByDate_lookup) (simp add: bucket_of_def)
  qed
  show "toDateString (Some t1) = toDateString (Some t2)
        \<longleftrightarrow> Day (LocalTime t1) = Day (LocalTime t2)"
    by (rule toDateString_eq_iff)
  show "toDateString d = Invalid_Date \<longleftrightarrow> d = None"
    by (rule toDateString_Invalid_iff)
qed

text \<open>
  Three posts: 10 March 2024 at 00:00, 16 March 2024, and 10 March 2024 at 15:30.
\<close>

lemma example_keys:
  "toDateString (Some 1710028800000) = Date_String 0 2 10 2024"
  "toDateString (Some 1710084600000) = Date_String 0 2 10 2024"
  "toDateString (Some 1710547200000) = Date_String 6 2 16 2024"
  by code_simp+

theorem postsByDate_partition_witness:
  "postsByDate
     [example_post ''1'' ''a'',
      (example_post ''2'' ''b'')\<lparr>date := Some 1710547200000\<rparr>,
      (example_post ''3'' ''c'')\<lparr>date := Some 1710084600000\<rparr>]
     (Date_String 0 2 10 2024)
   = Some [example_post ''1'' ''a'', (example_post ''3'' ''c'')\<lparr>date := Some 1710084600000\<rparr>]
   \<and> postsByDate
     [example_post ''1'' ''a'',
      (example_post ''2'' ''b'')\<lparr>date := Some 1710547200000\<rparr>,
      (example_post ''3'' ''c'')\<lparr>date := Some 1710084600000\<rparr>]
     (Date_String 6 2 16 2024)
   = Some [(example_post ''2'' ''b'')\<lparr>date := Some 1710547200000\<rparr>]"
  using postsByDate_partition [of
      "[example_post ''1'' ''a'',
        (example_post ''2'' ''b'')\<lparr>date := Some 1710547200000\<rparr>,
        (example_post ''3'' ''c'')\<lparr>date := Some 1710084600000\<rparr>]"
      "Date_String 0 2 10 2024" 0 0 None]
    postsByDate_partition [of
      "[example_post ''1'' ''a'',
        (example_post ''2'' ''b'')\<lparr>date := Some 1710547200000\<rparr>,
        (example_post ''3'' ''c'')\<lparr>date := Some 1710084600000\<rparr>]"
      "Date_String 6 2 16 2024" 0 0 None]
  by (simp add: example_post_def example_keys)

section \<open>The edit buffer\<close>

lemma dropWhile_all_iff: "(\<forall>x\<in>set (dropWhile P xs). P x) \<longleftrightarrow> (\<forall>x\<in>set xs. P x)"
proof
  assume a: "\<forall>x\<in>set (dropWhile P xs). P x"
  have "dropWhile P xs = []"
  proof (rule ccontr)
    assume ne: "dropWhile P xs \<noteq> []"
    then have "\<not> P (hd (dropWhile P xs))" by (rule hd_dropWhile)
    moreover from ne have "hd (dropWhile P xs) \<in> set (dropWhile P xs)" by simp
    ultimately show False using a by blast
  qed
  then show "\<forall>x\<in>set xs. P x" by (simp add: dropWhile_eq_Nil_conv)
next
  assume "\<forall>x\<in>set xs. P x"
  then show "\<forall>x\<in>set (dropWhile P xs). P x" by (blast dest: set_dropWhileD)
qed

lemma trim_empty_iff: "trim s = [] \<longleftrightarrow> (\<forall>c\<in>set s. isWhiteSpace c)"
  by (simp add: trim_def dropWhile_eq_Nil_conv dropWhile_all_iff)

subsection \<open>C9: adding a comment\<close>

text \<open>
  C9.  A comment text is blank when every character of it is white space, which is when
  \<open>trim\<close> leaves nothing.  Submitting a blank text leaves the whole edit buffer, and so
  its comment list, as it was.  Submitting any other text appends exactly one comment,
  with the given author and the text as typed, to the end of the list; the comments that
  were there are the same and in the same order.
\<close>

theorem add_comment_blank_or_append:
  "(trim s = [] \<longleftrightarrow> (\<forall>c\<in>set s. isWhiteSpace c))
   \<and> (trim (newComment st) = [] \<longrightarrow> handleAddComment a now_iso now st = st)
   \<and> (trim (newComment st) \<noteq> [] \<longrightarrow>
        comments (handleAddComment a now_iso now st) =
          comments st @ [\<lparr>comment_id = now_iso, author = a, comment_text = newComment st,
                          timestamp = now\<rparr>]
        \<and> length (comments (handleAddComment a now_iso now st)) = length (comments st) + 1
        \<and> take (length (comments st)) (comments (handleAddComment a now_iso now st)) = comments st)"
  by (simp add: handleAddComment_def Let_def trim_empty_iff)

text \<open>A text of two spaces and a tab is rejected; the text ``ok'' is appended.\<close>

theorem add_comment_blank_or_append_witness:
  "trim [CHR 0x20, CHR 0x20, CHR 0x09] = []
   \<and> handleAddComment Designer ''2024-03-10T09:00:00.000Z'' (Some 1710061200000)
        (example_buffer [CHR 0x20, CHR 0x20, CHR 0x09])
       = example_buffer [CHR 0x20, CHR 0x20, CHR 0x09]
   \<and> trim '' ok '' \<noteq> []
   \<and> comments (handleAddComment Designer ''2024-03-10T09:00:00.000Z'' (Some 1710061200000)
        (example_buffer '' ok ''))
       = [\<lparr>comment_id = ''c1'', author = Reviewer, comment_text = ''Looks great!'',
            timestamp = Some 1710028800000\<rparr>,
          \<lparr>comment_id = ''2024-03-10T09:00:00.000Z'', author = Designer, comment_text = '' ok '',
            timestamp = Some 1710061200000\<rparr>]"
  using add_comment_blank_or_append [of "[CHR 0x20, CHR 0x20, CHR 0x09]"
      "example_buffer [CHR 0x20, CHR 0x20, CHR 0x09]" Designer "''2024-03-10T09:00:00.000Z''"
      "Some 1710061200000"]
    add_comment_blank_or_append [of "'' ok ''"
      "example_buffer '' ok ''" Designer "''2024-03-10T09:00:00.000Z''" "Some 1710061200000"]
  by (simp add: example_buffer_def trim_def isWhiteSpace_def)

subsection \<open>C6: saving with no date\<close>

text \<open>
  C6, as the code has it.  When the modal has neither a post nor a pre-selected date,
  \<open>handleSave\<close> returns without calling \<open>onSave\<close> and without throwing: pressing Save
  Post raises no error and leaves the application state, the store included, as it was.
\<close>

theorem save_without_date_is_silent:
  "(post props = None \<and> date_prop props = None \<longrightarrow> handleSave props buffer = Normal None)
   \<and> (selectedPost app = None \<and> selectedDate app = None \<longrightarrow>
        Save_Post_click now buffer app = Normal app)"
  by (simp add: handleSave_def Save_Post_click_def)

theorem save_without_date_is_silent_witness:
  "post \<lparr>post = None, date_prop = None\<rparr> = None
   \<and> date_prop \<lparr>post = None, date_prop = None\<rparr> = None
   \<and> handleSave \<lparr>post = None, date_prop = None\<rparr> (example_buffer []) = Normal None
   \<and> selectedPost (example_state [example_post ''1'' ''a'']) = None
   \<and> selectedDate (example_state [example_post ''1'' ''a'']) = None
   \<and> Save_Post_click ''2024-03-10T09:00:00.000Z'' (example_buffer [])
        (example_state [example_post ''1'' ''a''])
       = Normal (example_state [example_post ''1'' ''a''])"
  using save_without_date_is_silent [of "\<lparr>post = None, date_prop = None\<rparr>" "example_buffer []"
      "example_state [example_post ''1'' ''a'']" "''2024-03-10T09:00:00.000Z''"]
  by (simp add: example_state_def)

text \<open>
  C6 as stated fails: with no post and no date the save does not end in an error.
\<close>

theorem save_without_date_counterexample:
  "post \<lparr>post = None, date_prop = None\<rparr> = None
   \<and> date_prop \<lparr>post = None, date_prop = None\<rparr> = None
   \<and> \<not> (\<exists>e. handleSave \<lparr>post = None, date_prop = None\<rparr> (example_buffer []) = Throw e)
   \<and> \<not> (\<exists>e. Save_Post_click ''2024-03-10T09:00:00.000Z'' (example_buffer [])
               (example_state [example_post ''1'' ''a'']) = Throw e)"
  by (simp add: handleSave_def Save_Post_click_def example_state_def)

section \<open>The caption service\<close>

subsection \<open>C7: suggestCaption does not throw\<close>

text \<open>
  C7.  For every list of images, every value of the API key and every behaviour of the
  remote call, \<open>suggestCaption\<close> returns a string and does not throw.  Without an API
  key it returns the message that the key is not configured; when the remote call
  throws, whatever the error, it returns the message asking to try again later.
\<close>

theorem suggestCaption_never_throws:
  "(\<exists>s. suggestCaption API_KEY generateContent imgs = Normal s)
   \<and> (\<not> truthy API_KEY \<longrightarrow>
        suggestCaption API_KEY generateContent imgs =
          Normal ''API Key not configured. Please set the API_KEY environment variable.'')
   \<and> (truthy API_KEY \<and> (\<exists>e. generateContent (caption_request imgs) = Throw e) \<longrightarrow>
        suggestCaption API_KEY generateContent imgs =
          Normal ''Sorry, I couldn't generate a caption right now. Please try again later.'')"
  by (auto simp: suggestCaption_def Let_def split: completion.splits)

text \<open>No key; and a key with a remote call that fails on every request.\<close>

theorem suggestCaption_never_throws_witness:
  "\<not> truthy None
   \<and> suggestCaption None (\<lambda>r. Throw ''unreachable'') [''data:image/png;base64,AAAA'']
       = Normal ''API Key not configured. Please set the API_KEY environment variable.''
   \<and> truthy (Some ''k'')
   \<and> suggestCaption (Some ''k'') (\<lambda>r. Throw ''429 quota exceeded'') [''data:image/png;base64,AAAA'']
       = Normal ''Sorry, I couldn't generate a caption right now. Please try again later.''"
  using suggestCaption_never_throws [of None "\<lambda>r. Throw ''unreachable''"
      "[''data:image/png;base64,AAAA'']"]
    suggestCaption_never_throws [of "Some ''k''" "\<lambda>r. Throw ''429 quota exceeded''"
      "[''data:image/png;base64,AAAA'']"]
  by (simp add: truthy_def)

section \<open>Calendar arithmetic\<close>

text \<open>
  \<open>MakeDay\<close> and the field functions are inverse to each other, and a day of a year
  between -271820 and 275759 is inside the range of time values.
\<close>

lemma month_cases:
  "0 \<le> (m::int) \<Longrightarrow> m \<le> 11 \<Longrightarrow>
     m = 0 \<or> m = 1 \<or> m = 2 \<or> m = 3 \<or> m = 4 \<or> m = 5 \<or> m = 6 \<or> m = 7 \<or> m = 8
     \<or> m = 9 \<or> m = 10 \<or> m = 11"
proof -
  assume "0 \<le> m" "m \<le> 11"
  then have "m \<in> {0..11}" by simp
  also have "{0..11::int} = set [0..11]" by simp
  also have "[0..11::int] = [0, 1, 2, 3, 4, 5, 6, 7, 8, 9, 10, 11]" by (simp add: upto.simps)
  finally show ?thesis by simp
qed

lemma MakeDay_month:
  "0 \<le> mn \<Longrightarrow> mn \<le> 11 \<Longrightarrow>
     MakeDay y mn dt =
       DayFromYear y + DaysBeforeMonth mn (if DaysInYear y = 366 then 1 else 0) + dt - 1"
  by (simp add: MakeDay_def)

lemma day_of_year_range:
  assumes "0 \<le> mn" "mn \<le> 11" "1 \<le> dt" "dt \<le> DaysInMonth y mn"
  shows "0 \<le> DaysBeforeMonth mn (if DaysInYear y = 366 then 1 else 0) + dt - 1
         \<and> DaysBeforeMonth mn (if DaysInYear y = 366 then 1 else 0) + dt - 1 < DaysInYear y"
  using month_cases [OF assms(1,2)] assms(3,4) DaysInYear_bounds [of y]
  by (elim disjE) (simp_all add: DaysBeforeMonth_def DaysInMonth_def split: if_splits)

lemma civil_of_MakeDay:
  assumes "0 \<le> mn" "mn \<le> 11" "1 \<le> dt" "dt \<le> DaysInMonth y mn" "Day t = MakeDay y mn dt"
  shows "YearFromTime t = y \<and> MonthFromTime t = mn \<and> DateFromTime t = dt"
proof -
  let ?l = "if DaysInYear y = 366 then 1 else (0::int)"
  have d: "Day t = DayFromYear y + DaysBeforeMonth mn ?l + dt - 1"
    using assms(5) MakeDay_month [OF assms(1,2)] by simp
  from day_of_year_range [OF assms(1-4)] d
  have "DayFromYear y \<le> Day t" "Day t < DayFromYear (y + 1)"
    by (simp_all add: DayFromYear_Suc)
  then have y: "YearFromTime t = y" by (rule YearFromTime_unique)
  then have l: "InLeapYear t = ?l" by (simp add: InLeapYear_def)
  from y d have w: "DayWithinYear t = DaysBeforeMonth mn ?l + dt - 1"
    by (simp add: DayWithinYear_def)
  have m: "MonthFromTime t = mn"
    using month_cases [OF assms(1,2)] assms(3,4)
    by (elim disjE)
      (simp_all add: MonthFromTime_def l w DaysBeforeMonth_def DaysInMonth_def Let_def
        split: if_splits)
  have "DateFromTime t = dt"
    by (simp add: DateFromTime_eq m l w)
  with y m show ?thesis by simp
qed



lemma MakeDay_previous_year: "MakeDay y (- 1) dt = MakeDay (y - 1) 11 dt"
  by (simp add: MakeDay_def)

lemma MakeDay_following_year: "MakeDay y 12 dt = MakeDay (y + 1) 0 dt"
  by (simp add: MakeDay_def)

lemma DayFromYear_low [simp]: "DayFromYear (- 271820) = - 99999744"
  by (simp add: DayFromYear_def)

lemma DayFromYear_high [simp]: "DayFromYear 275760 = 99999744"
  by (simp add: DayFromYear_def)

lemma year_days_in_range:
  assumes "- 271820 \<le> y" "y \<le> 275759"
  shows "- 99999744 \<le> DayFromYear y \<and> DayFromYear (y + 1) \<le> 99999744"
proof -
  from assms(2) have "y + 1 \<le> 275760" by simp
  from DayFromYear_mono [OF assms(1)] DayFromYear_mono [OF this]
  show ?thesis by simp
qed

lemma TimeClip_day:
  assumes "- 99999775 \<le> d" "d \<le> 99999744" "0 \<le> tod" "tod < msPerDay"
  shows "TimeClip (MakeDate d tod) = Some (d * msPerDay + tod)"
  using assms by (simp add: TimeClip_def MakeDate_def msPerDay_def)

lemma Day_MakeDate:
  "0 \<le> tod \<Longrightarrow> tod < msPerDay \<Longrightarrow> Day (d * msPerDay + tod) = d"
  by (simp add: Day_def msPerDay_def)

section \<open>Days and months in range\<close>

lemma DaysInMonth_ge: "28 \<le> DaysInMonth y m"
  by (simp add: DaysInMonth_def)

lemma day_in_range:
  assumes "- 271820 \<le> y" "y \<le> 275759" "0 \<le> mn" "mn \<le> 11" "1 \<le> dt" "dt \<le> DaysInMonth y mn"
  shows "- 99999744 \<le> MakeDay y mn dt \<and> MakeDay y mn dt < 99999744"
  using day_of_year_range [OF assms(3-6)] year_days_in_range [OF assms(1,2)]
  by (simp add: MakeDay_month [OF assms(3,4)] DayFromYear_Suc)

lemma date_fields:
  assumes "0 \<le> mn" "mn \<le> 11" "1 \<le> dt" "dt \<le> DaysInMonth y mn"
    and "0 \<le> tod" "tod < msPerDay"
  shows "getFullYear (Some (MakeDay y mn dt * msPerDay + tod)) = Some y
         \<and> getMonth (Some (MakeDay y mn dt * msPerDay + tod)) = Some mn
         \<and> getDate (Some (MakeDay y mn dt * msPerDay + tod)) = Some dt
         \<and> getDay (Some (MakeDay y mn dt * msPerDay + tod)) = Some ((MakeDay y mn dt + 4) mod 7)"
proof -
  have d: "Day (MakeDay y mn dt * msPerDay + tod) = MakeDay y mn dt"
    by (rule Day_MakeDate [OF assms(5,6)])
  from civil_of_MakeDay [OF assms(1-4) d] d show ?thesis
    by (simp add: getFullYear_def getMonth_def getDate_def getDay_def WeekDay_def)
qed

lemma new_Date_value:
  assumes "yr = (if 0 \<le> y \<and> y \<le> 99 then 1900 + y else y)"
    and "- 99999775 \<le> MakeDay yr m dt" "MakeDay yr m dt \<le> 99999744"
  shows "new_Date (Some y) (Some m) (Some dt) = Some (MakeDay yr m dt * msPerDay)"
proof -
  have "TimeClip (MakeDate (MakeDay yr m dt) 0) = Some (MakeDay yr m dt * msPerDay + 0)"
    by (rule TimeClip_day [OF assms(2,3)]) (simp_all add: msPerDay_def)
  then show ?thesis
    by (simp add: new_Date_def MakeTime_def assms(1) Let_def)
qed

lemma getMonth_range: "getMonth d = Some M \<Longrightarrow> 0 \<le> M \<and> M \<le> 11"
  using MonthFromTime_range by (auto simp: getMonth_def)


section \<open>The month grid\<close>






subsection \<open>C3: one cell for each day of the month\<close>










section \<open>Month navigation\<close>

subsection \<open>C8: moving to the previous and the next month\<close>

lemma previous_month_day:
  assumes "- 271820 \<le> Y" "Y \<le> 275759" "0 \<le> M" "M \<le> 11"
  shows "\<exists>y m. MakeDay Y (M - 1) 1 = MakeDay y m 1
           \<and> y = (if M = 0 then Y - 1 else Y) \<and> m = (if M = 0 then 11 else M - 1)
           \<and> - 99999775 \<le> MakeDay y m 1 \<and> MakeDay y m 1 \<le> 99999744"
proof (cases "M = 0")
  case True
  have "MakeDay (Y - 1) 11 1 = DayFromYear (Y - 1) + 334 + (if DaysInYear (Y - 1) = 366 then 1 else 0)"
    by (simp add: MakeDay_def DaysBeforeMonth_def)
  moreover have "DayFromYear Y = DayFromYear (Y - 1) + DaysInYear (Y - 1)"
    using DayFromYear_Suc [of "Y - 1"] by simp
  ultimately have "MakeDay (Y - 1) 11 1 = DayFromYear Y - 31"
    using DaysInYear_bounds [of "Y - 1"] by (auto split: if_splits)
  with year_days_in_range [OF assms(1,2)] DayFromYear_mono [of Y "Y + 1"] True
  show ?thesis by (simp add: MakeDay_previous_year)
next
  case False
  with assms(3,4) have m: "0 \<le> M - 1" "M - 1 \<le> 11" by simp_all
  have "- 99999744 \<le> MakeDay Y (M - 1) 1 \<and> MakeDay Y (M - 1) 1 < 99999744"
    using DaysInMonth_ge [of Y "M - 1"] by (intro day_in_range [OF assms(1,2) m]) simp_all
  with False show ?thesis by simp
qed

lemma next_month_day:
  assumes "- 271820 \<le> Y" "Y \<le> 275759" "0 \<le> M" "M \<le> 11"
  shows "\<exists>y m. MakeDay Y (M + 1) 1 = MakeDay y m 1
           \<and> y = (if M = 11 then Y + 1 else Y) \<and> m = (if M = 11 then 0 else M + 1)
           \<and> - 99999775 \<le> MakeDay y m 1 \<and> MakeDay y m 1 \<le> 99999744"
proof (cases "M = 11")
  case True
  have "MakeDay (Y + 1) 0 1 = DayFromYear (Y + 1)"
    by (simp add: MakeDay_def DaysBeforeMonth_def)
  with year_days_in_range [OF assms(1,2)] DayFromYear_mono [of Y "Y + 1"] True
  show ?thesis by (simp add: MakeDay_following_year)
next
  case False
  with assms(3,4) have m: "0 \<le> M + 1" "M + 1 \<le> 11" by simp_all
  have "- 99999744 \<le> MakeDay Y (M + 1) 1 \<and> MakeDay Y (M + 1) 1 < 99999744"
    using DaysInMonth_ge [of Y "M + 1"] by (intro day_in_range [OF assms(1,2) m]) simp_all
  with False show ?thesis by simp
qed

lemma first_of_month_fields:
  assumes "0 \<le> m" "m \<le> 11"
  shows "getFullYear (Some (MakeDay y m 1 * msPerDay)) = Some y
         \<and> getMonth (Some (MakeDay y m 1 * msPerDay)) = Some m
         \<and> getDate (Some (MakeDay y m 1 * msPerDay)) = Some 1"
  using date_fields [OF assms, of 1 y 0] DaysInMonth_ge [of y m]
  by (simp add: msPerDay_def)

text \<open>
  C8, as the code has it.  Let the current date be valid, in month \<open>M\<close> of a year \<open>Y\<close> from
  -271820 to 275759 that is not one of the years 0 to 99.  Then \<open>goToPreviousMonth\<close>
  lands on day 1 of the month before, which from January is December of the year
  \<open>Y - 1\<close>, and \<open>goToNextMonth\<close> lands on day 1 of the month after, which from December is
  January of the year \<open>Y + 1\<close>.
\<close>

theorem month_navigation:
  assumes "getFullYear (currentDate st) = Some Y" and "getMonth (currentDate st) = Some M"
    and "\<not> (0 \<le> Y \<and> Y \<le> 99)" and "- 271820 \<le> Y" and "Y \<le> 275759"
  shows "getDate (currentDate (goToPreviousMonth st)) = Some 1
         \<and> getMonth (currentDate (goToPreviousMonth st)) = Some (if M = 0 then 11 else M - 1)
         \<and> getFullYear (currentDate (goToPreviousMonth st)) = Some (if M = 0 then Y - 1 else Y)
         \<and> getDate (currentDate (goToNextMonth st)) = Some 1
         \<and> getMonth (currentDate (goToNextMonth st)) = Some (if M = 11 then 0 else M + 1)
         \<and> getFullYear (currentDate (goToNextMonth st)) = Some (if M = 11 then Y + 1 else Y)"
proof -
  have yr: "Y = (if 0 \<le> Y \<and> Y \<le> 99 then 1900 + Y else Y)"
    using assms(3) by (rule if_not_P [symmetric])
  from getMonth_range [OF assms(2)] have M: "0 \<le> M" "M \<le> 11" by simp_all
  from previous_month_day [OF assms(4,5) M] obtain y m where
    p: "MakeDay Y (M - 1) 1 = MakeDay y m 1" "y = (if M = 0 then Y - 1 else Y)"
      "m = (if M = 0 then 11 else M - 1)"
      "- 99999775 \<le> MakeDay y m 1" "MakeDay y m 1 \<le> 99999744"
    by blast
  from next_month_day [OF assms(4,5) M] obtain y' m' where
    n: "MakeDay Y (M + 1) 1 = MakeDay y' m' 1" "y' = (if M = 11 then Y + 1 else Y)"
      "m' = (if M = 11 then 0 else M + 1)"
      "- 99999775 \<le> MakeDay y' m' 1" "MakeDay y' m' 1 \<le> 99999744"
    by blast
  from M p(3) have m: "0 \<le> m" "m \<le> 11" by (simp_all split: if_splits)
  from M n(3) have m': "0 \<le> m'" "m' \<le> 11" by (simp_all split: if_splits)
  have "new_Date (Some Y) (Some (M - 1)) (Some 1) = Some (MakeDay Y (M - 1) 1 * msPerDay)"
    using p(4,5) unfolding p(1) [symmetric] by (rule new_Date_value [OF yr])
  then have prev: "currentDate (goToPreviousMonth st) = Some (MakeDay y m 1 * msPerDay)"
    by (simp add: goToPreviousMonth_def assms(1,2) js_add_def p(1))
  have "new_Date (Some Y) (Some (M + 1)) (Some 1) = Some (MakeDay Y (M + 1) 1 * msPerDay)"
    using n(4,5) unfolding n(1) [symmetric] by (rule new_Date_value [OF yr])
  then have nxt: "currentDate (goToNextMonth st) = Some (MakeDay y' m' 1 * msPerDay)"
    by (simp add: goToNextMonth_def assms(1,2) js_add_def n(1))
  from first_of_month_fields [OF m, of y] first_of_month_fields [OF m', of y']
  show ?thesis
    unfolding prev nxt p(2,3) [symmetric] n(2,3) [symmetric] by simp
qed

text \<open>
  From 15 January 2024 back to 1 December 2023, and from 15 December 2023 on to
  1 January 2024.
\<close>

lemma turn_of_2024:
  "getFullYear (Some 1705276800000) = Some 2024"
  "getMonth (Some 1705276800000) = Some 0"
  "getFullYear (Some 1702598400000) = Some 2023"
  "getMonth (Some 1702598400000) = Some 11"
  by code_simp+

theorem month_navigation_witness:
  "getFullYear (currentDate ((example_state [])\<lparr>currentDate := Some 1705276800000\<rparr>)) = Some 2024
   \<and> getMonth (currentDate ((example_state [])\<lparr>currentDate := Some 1705276800000\<rparr>)) = Some 0
   \<and> getFullYear (currentDate (goToPreviousMonth
        ((example_state [])\<lparr>currentDate := Some 1705276800000\<rparr>))) = Some 2023
   \<and> getMonth (currentDate (goToPreviousMonth
        ((example_state [])\<lparr>currentDate := Some 1705276800000\<rparr>))) = Some 11
   \<and> getDate (currentDate (goToPreviousMonth
        ((example_state [])\<lparr>currentDate := Some 1705276800000\<rparr>))) = Some 1
   \<and> getFullYear (currentDate ((example_state [])\<lparr>currentDate := Some 1702598400000\<rparr>)) = Some 2023
   \<and> getMonth (currentDate ((example_state [])\<lparr>currentDate := Some 1702598400000\<rparr>)) = Some 11
   \<and> getFullYear (currentDate (goToNextMonth
        ((example_state [])\<lparr>currentDate := Some 1702598400000\<rparr>))) = Some 2024
   \<and> getMonth (currentDate (goToNextMonth
        ((example_state [])\<lparr>currentDate := Some 1702598400000\<rparr>))) = Some 0
   \<and> getDate (currentDate (goToNextMonth
        ((example_state [])\<lparr>currentDate := Some 1702598400000\<rparr>))) = Some 1"
  using month_navigation [of "(example_state [])\<lparr>currentDate := Some 1705276800000\<rparr>" 2024 0]
    month_navigation [of "(example_state [])\<lparr>currentDate := Some 1702598400000\<rparr>" 2023 11]
  by (simp add: turn_of_2024)

text \<open>
  C8 as stated fails in the years 0 to 99.  From 15 January of the year 99 the previous
  month is not December 98 but December 1998, and from 15 December of the year 99 the
  next month is not January 100 but January 2000.
\<close>

lemma year_99:
  "getFullYear (Some (- 59041785600000)) = Some 99"
  "getMonth (Some (- 59041785600000)) = Some 0"
  "new_Date (Some 99) (Some (- 1)) (Some 1) = Some 912470400000"
  "getFullYear (Some 912470400000) = Some 1998"
  "getMonth (Some 912470400000) = Some 11"
  "getFullYear (Some (- 59012928000000)) = Some 99"
  "getMonth (Some (- 59012928000000)) = Some 11"
  "new_Date (Some 99) (Some 12) (Some 1) = Some 946684800000"
  "getFullYear (Some 946684800000) = Some 2000"
  "getMonth (Some 946684800000) = Some 0"
  by code_simp+

theorem month_navigation_year_99_counterexample:
  "getFullYear (Some (- 59041785600000)) = Some 99
   \<and> getMonth (Some (- 59041785600000)) = Some 0
   \<and> getFullYear (currentDate (goToPreviousMonth
        ((example_state [])\<lparr>currentDate := Some (- 59041785600000)\<rparr>))) = Some 1998
   \<and> getMonth (currentDate (goToPreviousMonth
        ((example_state [])\<lparr>currentDate := Some (- 59041785600000)\<rparr>))) = Some 11
   \<and> getFullYear (Some (- 59012928000000)) = Some 99
   \<and> getMonth (Some (- 59012928000000)) = Some 11
   \<and> getFullYear (currentDate (goToNextMonth
        ((example_state [])\<lparr>currentDate := Some (- 59012928000000)\<rparr>))) = Some 2000
   \<and> getMonth (currentDate (goToNextMonth
        ((example_state [])\<lparr>currentDate := Some (- 59012928000000)\<rparr>))) = Some 0"
  by (simp add: goToPreviousMonth_def goToNextMonth_def js_add_def year_99)

end
